theory Spec2Isabelle
  imports Complex_Main "HOL-Library.AList"
begin

section \<open>Values, errors and objects\<close>

text \<open>
  Everything the JavaScript throws is a value of \<open>error\<close>. \<open>ZodError\<close> is the
  validation error of the zod library (the spec's ValidationError); \<open>ThrownFunction\<close>
  is what \<^verbatim>\<open>onConnectionError\<close> of the fetcher really throws: its
  \<^verbatim>\<open>throw (() => {...})\<close> throws the arrow function and never calls it.
\<close>

datatype error =
    ZodError | NotFoundError | ThrownFunction | NetworkError | ReferenceError | TypeError

text \<open>
  The JavaScript values the modelled code handles. Numbers are idealised as reals (no NaN,
  no rounding); a \<open>JDate\<close> carries its time stamp; \<open>JQuote n ps\<close> is the StockQuote
  instance with identity \<open>n\<close> and own data properties \<open>ps\<close>, as it appears inside
  another value.
\<close>

datatype jsval =
    JUndefined
  | JNull
  | JNum real
  | JStr string
  | JDate real
  | JArr "jsval list"
  | JObj "(string \<times> jsval) list"
  | JQuote nat "(string \<times> jsval) list"

type_synonym props = "(string \<times> jsval) list"

text \<open>
  A StockQuote instance. Objects are compared by identity in the source
  (\<^verbatim>\<open>added_stock == stock\<close>), so every instance carries the number \<open>oid\<close> it got
  when \<^verbatim>\<open>new StockQuote\<close> allocated it. Quotes are never mutated after construction.
\<close>

record quote =
  oid :: nat
  own :: props

text \<open>A Watcher instance: one address and the quotes it watches.\<close>

record watcher =
  address :: "string option"
  stock :: "quote list"

text \<open>
  \<^verbatim>\<open>ManagersResult\<close>: \<open>stocks\<close> is a StockQuote or a plain object of them (the private
  field starts as \<^verbatim>\<open>{}\<close>), \<open>watchers\<close> an array of Watcher.
\<close>

datatype stocks_val = QuoteVal quote | ObjectVal "(string \<times> quote) list"

record ManagersResult =
  stocks :: stocks_val
  watchers :: "watcher list"

text \<open>
  The constructor \<^verbatim>\<open>ManagersResult(stocks, watchers)\<close> assigns an argument only when it
  is truthy: an undefined quote leaves \<open>stocks\<close> at \<^verbatim>\<open>{}\<close>; an array is always truthy.
\<close>

definition ManagersResult_new :: "quote option \<Rightarrow> watcher list \<Rightarrow> ManagersResult" where
  "ManagersResult_new q ws =
     \<lparr>stocks = (case q of Some x \<Rightarrow> QuoteVal x | None \<Rightarrow> ObjectVal []), watchers = ws\<rparr>"

section \<open>ManagersComparisonResult\<close>

text \<open>
  \<open>data\<close> is an object keyed by name; the embedding lists its entries in the order of
  \<^verbatim>\<open>Object.keys\<close>, which for the non-numeric keys of this program is insertion order.
  \<^verbatim>\<open>Object.fromEntries\<close> keeps the first position of a repeated key and its last value.
\<close>

type_synonym comparison_data = "(string \<times> ManagersResult) list"

definition Object_fromEntries :: "(string \<times> 'a) list \<Rightarrow> (string \<times> 'a) list" where
  "Object_fromEntries es = fold (\<lambda>e acc. AList.update (fst e) (snd e) acc) es []"

text \<open>
  \<^verbatim>\<open>Array.prototype.slice(start, end)\<close>: a negative bound counts from the end, both are
  clamped to the array, and an undefined \<open>end\<close> is the length.
\<close>

definition js_slice :: "int \<Rightarrow> int option \<Rightarrow> 'a list \<Rightarrow> 'a list" where
  "js_slice start end xs =
     (let len = int (length xs);
          k = (if start < 0 then max (len + start) 0 else min start len);
          fin = (case end of None \<Rightarrow> len
                 | Some e \<Rightarrow> if e < 0 then max (len + e) 0 else min e len)
      in take (nat (fin - k)) (drop (nat k) xs))"

text \<open>
  The entry an index is compared with:
  \<^verbatim>\<open>Object.values(this.data).slice(-(1 - index), index ? -index : undefined)[0]\<close>.
  Reading \<^verbatim>\<open>[0]\<close> of an empty slice gives undefined, and the property access that
  follows throws a TypeError.
\<close>

definition paired :: "nat \<Rightarrow> 'a list \<Rightarrow> error + 'a" where
  "paired index vs =
     (case js_slice (- (1 - int index)) (if index = 0 then None else Some (- int index)) vs of
        [] \<Rightarrow> Inl TypeError
      | v # _ \<Rightarrow> Inr v)"

text \<open>The closure \<^verbatim>\<open>popular\<close>: one pass of its \<^verbatim>\<open>for\<close> loop, and the loop.\<close>

definition popular_step ::
  "comparison_data \<Rightarrow> nat \<Rightarrow> error + (string \<times> int) list \<Rightarrow> error + (string \<times> int) list" where
  "popular_step data index acc =
     (case acc of
        Inl e \<Rightarrow> Inl e
      | Inr difference \<Rightarrow>
          (case paired index (map snd data) of
             Inl e \<Rightarrow> Inl e
           | Inr other \<Rightarrow>
               Inr (AList.update (fst (data ! index))
                      (int (length (watchers other))
                         - int (length (watchers (snd (data ! index)))))
                      difference)))"

definition popular :: "comparison_data \<Rightarrow> error + (string \<times> int) list" where
  "popular data = fold (popular_step data) [0..<length data] (Inr [])"

text \<open>
  \<^verbatim>\<open>names\<close> is \<^verbatim>\<open>Object.keys(this.data)\<close>. The closure \<^verbatim>\<open>differences\<close> walks
  \<^verbatim>\<open>Object.keys(this.names)\<close>: the keys of an array are its indices as decimal strings,
  so each \<open>name\<close> it looks up in a quote is \<^verbatim>\<open>"0"\<close>, \<^verbatim>\<open>"1"\<close>, ...
\<close>

definition names :: "comparison_data \<Rightarrow> string list" where
  "names data = map fst data"

fun decimal :: "nat \<Rightarrow> string" where
  "decimal n =
     (if n < 10 then [''0123456789'' ! n]
      else decimal (n div 10) @ [''0123456789'' ! (n mod 10)])"

declare decimal.simps [simp del]

definition Object_keys_of_array :: "'a list \<Rightarrow> string list" where
  "Object_keys_of_array xs = map decimal [0..<length xs]"

text \<open>
  \<^verbatim>\<open>stocks[name]\<close>: a property that is not there reads as undefined. (The instance fields
  \<^verbatim>\<open>_schema\<close> and \<^verbatim>\<open>_validate\<close> of a quote are not data properties of the embedding;
  neither is a number or a Date.)
\<close>

definition get_prop :: "props \<Rightarrow> string \<Rightarrow> jsval" where
  "get_prop ps name = (case map_of ps name of Some v \<Rightarrow> v | None \<Rightarrow> JUndefined)"

definition stocks_prop :: "stocks_val \<Rightarrow> string \<Rightarrow> jsval" where
  "stocks_prop sv name =
     (case sv of
        QuoteVal q \<Rightarrow> get_prop (own q) name
      | ObjectVal m \<Rightarrow>
          (case map_of m name of Some q \<Rightarrow> JQuote (oid q) (own q) | None \<Rightarrow> JUndefined))"

text \<open>
  The test \<^verbatim>\<open>(typeof(value)).includes(`num`) || value instanceof Date\<close>, and the
  subtraction of two values that passed it (a Date converts to its time stamp).
\<close>

fun is_numeric :: "jsval \<Rightarrow> bool" where
  "is_numeric (JNum _) = True"
| "is_numeric (JDate _) = True"
| "is_numeric _ = False"

fun to_number :: "jsval \<Rightarrow> real" where
  "to_number (JNum x) = x"
| "to_number (JDate t) = t"
| "to_number _ = 0"

definition field_differences :: "stocks_val \<Rightarrow> stocks_val \<Rightarrow> string list \<Rightarrow> props" where
  "field_differences this other keys =
     Object_fromEntries
       (map (\<lambda>name. (name, JNum (to_number (stocks_prop other name)
                                   - to_number (stocks_prop this name))))
          (filter (\<lambda>name. is_numeric (stocks_prop this name)
                          \<and> is_numeric (stocks_prop other name)) keys))"

definition differences_step ::
  "comparison_data \<Rightarrow> nat \<Rightarrow> error + (string \<times> props) list \<Rightarrow> error + (string \<times> props) list" where
  "differences_step data index acc =
     (case acc of
        Inl e \<Rightarrow> Inl e
      | Inr difference \<Rightarrow>
          (case paired index (map snd data) of
             Inl e \<Rightarrow> Inl e
           | Inr other \<Rightarrow>
               Inr (AList.update (fst (data ! index))
                      (field_differences (stocks (snd (data ! index))) (stocks other)
                         (Object_keys_of_array (names data)))
                      difference)))"

definition differences :: "comparison_data \<Rightarrow> error + (string \<times> props) list" where
  "differences data = fold (differences_step data) [0..<length data] (Inr [])"

text \<open>The getter \<^verbatim>\<open>comparison\<close> builds both members, \<open>watchers\<close> first.\<close>

record comparison_result =
  cmp_watchers :: "(string \<times> int) list"
  cmp_stocks :: "(string \<times> props) list"

definition comparison :: "comparison_data \<Rightarrow> error + comparison_result" where
  "comparison data =
     (case popular data of
        Inl e \<Rightarrow> Inl e
      | Inr w \<Rightarrow>
          (case differences data of
             Inl e \<Rightarrow> Inl e
           | Inr d \<Rightarrow> Inr \<lparr>cmp_watchers = w, cmp_stocks = d\<rparr>))"

section \<open>DataContainer, StockQuote and Watcher\<close>

text \<open>
  The value of the instance field \<^verbatim>\<open>_schema\<close>: the loose empty object schema of
  \<^verbatim>\<open>DataContainer\<close>, or the object schema a subclass declares. What a declared schema
  accepts is the business of the zod library, outside this repository: the embedding takes
  it as the parameter \<open>shapes\<close>. \<^verbatim>\<open>z.object({}).loose()\<close> accepts every object that is
  not an array (a class instance too, and a Date, which has no properties of its own) and
  returns its properties unchanged; it rejects undefined, null, numbers, strings and arrays.
\<close>

datatype schema = LooseObject | QuoteShape | WatcherShape

type_synonym shapes = "schema \<Rightarrow> jsval \<Rightarrow> error + props"

definition zod_parse :: "shapes \<Rightarrow> schema \<Rightarrow> jsval \<Rightarrow> error + props" where
  "zod_parse sh sc v =
     (case sc of
        LooseObject \<Rightarrow>
          (case v of
             JObj ps \<Rightarrow> Inr ps
           | JQuote _ ps \<Rightarrow> Inr ps
           | JDate _ \<Rightarrow> Inr []
           | _ \<Rightarrow> Inl ZodError)
      | _ \<Rightarrow> sh sc v)"

definition safeParse_success :: "shapes \<Rightarrow> schema \<Rightarrow> jsval \<Rightarrow> bool" where
  "safeParse_success sh sc v = (case zod_parse sh sc v of Inl _ \<Rightarrow> False | Inr _ \<Rightarrow> True)"

text \<open>
  An object under construction: the current value of its \<^verbatim>\<open>_schema\<close> field and its own
  data properties. \<^verbatim>\<open>Object.assign\<close> writes a source's properties in order; writing
  \<^verbatim>\<open>_validate\<close>, which the prototype defines with a getter only, throws a TypeError.
\<close>

record container =
  slot_schema :: schema
  slot_props :: props

definition Object_assign :: "container \<Rightarrow> props \<Rightarrow> error + container" where
  "Object_assign this src =
     (if ''_validate'' \<in> set (map fst src) then Inl TypeError
      else Inr (this\<lparr>slot_props := fold (\<lambda>e acc. AList.update (fst e) (snd e) acc) src
                                        (slot_props this)\<rparr>))"

text \<open>
  The constructor of \<^verbatim>\<open>DataContainer\<close> (templates/data.js). A class field is initialised
  when the constructor of the class that declares it starts, for a subclass that is when
  \<^verbatim>\<open>super(...)\<close> returns. So while this body runs, \<^verbatim>\<open>this._schema\<close> is the loose
  schema of \<^verbatim>\<open>DataContainer\<close> itself, whatever the subclass declares: \<open>this\<close> comes in
  with \<open>slot_schema = LooseObject\<close>. The parameter \<^verbatim>\<open>properties\<close> defaults to
  \<^verbatim>\<open>{}\<close>; \<^verbatim>\<open>safeParse()\<close> is called without an argument.
\<close>

definition DataContainer_fields :: container where
  "DataContainer_fields = \<lparr>slot_schema = LooseObject, slot_props = []\<rparr>"

definition DataContainer_ctor :: "shapes \<Rightarrow> container \<Rightarrow> jsval \<Rightarrow> bool \<Rightarrow> error + container" where
  "DataContainer_ctor sh this properties strict =
     (let properties = (if properties = JUndefined then JObj [] else properties)
      in if strict \<or> safeParse_success sh (slot_schema this) JUndefined
         then (case zod_parse sh (slot_schema this) properties of
                 Inl e \<Rightarrow> Inl e
               | Inr parsed \<Rightarrow> Object_assign this parsed)
         else Inr this)"

text \<open>
  \<^verbatim>\<open>StockSybmolRegex\<close> (data/stock.js):
  \<^verbatim>\<open>z.coerce.string().trim().regex(/^[A-Z.]{1,6}$/)\<close>, here on strings, with the
  ASCII white space for what \<^verbatim>\<open>trim\<close> removes. The parsed value is the trimmed string.
\<close>

definition is_space :: "char \<Rightarrow> bool" where
  "is_space c = (c \<in> set [CHR '' '', CHR 0x09, CHR 0x0A, CHR 0x0B, CHR 0x0C, CHR 0x0D])"

definition trim :: "string \<Rightarrow> string" where
  "trim s = rev (dropWhile is_space (rev (dropWhile is_space s)))"

definition StockSybmolRegex_parse :: "string \<Rightarrow> error + string" where
  "StockSybmolRegex_parse s =
     (let t = trim s
      in if 1 \<le> length t \<and> length t \<le> 6
            \<and> list_all (\<lambda>c. c \<in> set ''ABCDEFGHIJKLMNOPQRSTUVWXYZ.'') t
         then Inr t else Inl ZodError)"

text \<open>
  The constructor of \<^verbatim>\<open>StockQuote\<close> (data/stock.js):
  \<^verbatim>\<open>super(properties, true)\<close>, then the field initialisers of the class (every declared
  field is set to undefined, \<^verbatim>\<open>_schema\<close> to the declared object schema), then
  \<^verbatim>\<open>Object.assign(this, properties)\<close> with the properties as they were passed.
  \<open>n\<close> is the identity the new object gets.
\<close>

definition StockQuote_declared :: "string list" where
  "StockQuote_declared =
     [''symbol'', ''change'', ''changePercent'', ''close'', ''high'', ''latestPrice'',
      ''latestTime'', ''latestVolume'', ''low'', ''open'', ''previousClose'', ''volume'']"

definition StockQuote_fields :: "container \<Rightarrow> container" where
  "StockQuote_fields this =
     this\<lparr>slot_props := fold (\<lambda>k acc. AList.update k JUndefined acc) StockQuote_declared
                            (slot_props this),
          slot_schema := QuoteShape\<rparr>"

definition enumerable :: "jsval \<Rightarrow> props" where
  "enumerable v = (case v of JObj ps \<Rightarrow> ps | JQuote _ ps \<Rightarrow> ps | _ \<Rightarrow> [])"

definition StockQuote_ctor :: "shapes \<Rightarrow> nat \<Rightarrow> jsval \<Rightarrow> error + quote" where
  "StockQuote_ctor sh n properties =
     (case DataContainer_ctor sh DataContainer_fields properties True of
        Inl e \<Rightarrow> Inl e
      | Inr this \<Rightarrow>
          (case Object_assign (StockQuote_fields this) (enumerable properties) of
             Inl e \<Rightarrow> Inl e
           | Inr this' \<Rightarrow> Inr \<lparr>oid = n, own = slot_props this'\<rparr>))"

text \<open>
  The constructor of \<^verbatim>\<open>Watcher\<close> (data/watcher.js):

  \<^verbatim>\<open>super(properties)\<close>
  \<^verbatim>\<open>(strict || this._schema.safeParse().success) ? Object.assign(...) : false;\<close>

  No semicolon ends the first line and the second starts with a parenthesis, so the two are
  one expression: a call of the value of \<^verbatim>\<open>super(properties)\<close> with the argument
  \<^verbatim>\<open>strict || ...\<close>. \<^verbatim>\<open>super(properties)\<close> runs the constructor of
  \<^verbatim>\<open>DataContainer\<close> with \<open>strict = false\<close>, the fields of \<^verbatim>\<open>Watcher\<close> are
  initialised, and then the argument is evaluated. The constructor has the one parameter
  \<^verbatim>\<open>properties\<close> and the module binds \<^verbatim>\<open>z\<close>, \<^verbatim>\<open>DataContainer\<close>,
  \<^verbatim>\<open>StockQuote\<close> and \<^verbatim>\<open>Watcher\<close>: the identifier \<^verbatim>\<open>strict\<close> resolves to
  nothing, which is a ReferenceError (were it bound, calling the object that
  \<^verbatim>\<open>super\<close> returned would be a TypeError). Neither way returns an instance.
\<close>

definition Watcher_scope :: "string list" where
  "Watcher_scope = [''properties'', ''z'', ''DataContainer'', ''StockQuote'', ''Watcher'']"

definition Watcher_fields :: "container \<Rightarrow> container" where
  "Watcher_fields this =
     this\<lparr>slot_props := AList.update ''address'' JUndefined
                            (AList.update ''stock'' (JArr []) (slot_props this)),
          slot_schema := WatcherShape\<rparr>"

definition Watcher_ctor :: "shapes \<Rightarrow> jsval \<Rightarrow> error + watcher" where
  "Watcher_ctor sh properties =
     (case DataContainer_ctor sh DataContainer_fields properties False of
        Inl e \<Rightarrow> Inl e
      | Inr this \<Rightarrow>
          (let this' = Watcher_fields this
           in if ''strict'' \<in> set Watcher_scope then Inl TypeError else Inl ReferenceError))"

section \<open>The managers' state and their surroundings\<close>

text \<open>
  What the program does not own is a parameter: the declared zod schemas (\<open>shapes\<close>),
  the remote quote service and the optional callbacks of the two managers.

  \<open>remote k target\<close> is the outcome of the HTTP exchange of \<^verbatim>\<open>StockFetcher.fetch\<close>
  when \<open>k\<close> requests were sent before and \<open>target\<close> is the symbol in the URL.

  A callback is known by what the code can observe of it: whether it throws, and for
  \<^verbatim>\<open>callbacks.fetch\<close> whether the awaited value is truthy (the value itself is used
  nowhere). Callbacks are taken not to touch the managers' state.
\<close>

datatype reply = Unreachable | StatusNotOk | Unparsable | Body jsval

record env =
  shapes_of :: shapes
  remote :: "nat \<Rightarrow> string \<Rightarrow> reply"
  cb_fetch :: "(string \<Rightarrow> error + bool) option"
  cb_downloaded :: "(quote option \<Rightarrow> error option) option"
  cb_search :: "(quote option \<Rightarrow> string option \<Rightarrow> error option) option"

text \<open>
  The state of one \<^verbatim>\<open>Managers\<close> instance: the private object \<^verbatim>\<open>#stocks\<close> of its
  StockManager, the private array \<^verbatim>\<open>#watchers\<close> of its StockWatchers, the next free
  object identity, and two logs, oldest entry first: the symbols sent to the remote service
  (\<open>wire\<close>) and the symbols \<^verbatim>\<open>callbacks.fetch\<close> was called with (\<open>asked\<close>).
\<close>

record managers =
  sm_stocks :: "(string \<times> quote) list"
  sw_watchers :: "watcher list"
  next_oid :: nat
  wire :: "string list"
  asked :: "string list"

definition Managers_new :: managers where
  "Managers_new = \<lparr>sm_stocks = [], sw_watchers = [], next_oid = 0, wire = [], asked = []\<rparr>"

section \<open>StockFetcher\<close>

text \<open>
  The setter \<^verbatim>\<open>symbol\<close> parses a truthy symbol and stores undefined for a falsy one; the
  getter \<^verbatim>\<open>source\<close> parses the stored symbol again, where undefined is coerced to the
  string \<^verbatim>\<open>"undefined"\<close>.
\<close>

definition StockFetcher_set_symbol :: "string \<Rightarrow> error + string option" where
  "StockFetcher_set_symbol symbol =
     (if symbol = [] then Inr None
      else (case StockSybmolRegex_parse symbol of Inl e \<Rightarrow> Inl e | Inr t \<Rightarrow> Inr (Some t)))"

definition StockFetcher_source :: "string option \<Rightarrow> error + string" where
  "StockFetcher_source sybmol =
     StockSybmolRegex_parse (case sybmol of None \<Rightarrow> ''undefined'' | Some t \<Rightarrow> t)"

fun includes_str :: "string \<Rightarrow> string \<Rightarrow> bool" where
  "includes_str [] part = (part = [])"
| "includes_str (c # cs) part = (take (length part) (c # cs) = part \<or> includes_str cs part)"

text \<open>
  \<^verbatim>\<open>fetch\<close> of the fetcher (net/outgoing/fetch.js): the request, the status test, the
  parsed body (a string body is an error message of the service), then
  \<^verbatim>\<open>new StockQuote(response)\<close>.
\<close>

definition StockFetcher_fetch ::
  "env \<Rightarrow> string option \<Rightarrow> managers \<Rightarrow> (error + quote) \<times> managers" where
  "StockFetcher_fetch ev sybmol s =
     (case StockFetcher_source sybmol of
        Inl e \<Rightarrow> (Inl e, s)
      | Inr target \<Rightarrow>
          (let s1 = s\<lparr>wire := wire s @ [target]\<rparr>
           in case remote ev (length (wire s)) target of
                Unreachable \<Rightarrow> (Inl NetworkError, s1)
              | StatusNotOk \<Rightarrow> (Inl ThrownFunction, s1)
              | Unparsable \<Rightarrow> (Inl ThrownFunction, s1)
              | Body (JStr msg) \<Rightarrow>
                  (if includes_str msg ''symbol'' then (Inl NotFoundError, s1)
                   else (Inl ThrownFunction, s1))
              | Body response \<Rightarrow>
                  (case StockQuote_ctor (shapes_of ev) (next_oid s1) response of
                     Inl e \<Rightarrow> (Inl e, s1)
                   | Inr q \<Rightarrow> (Inr q, s1\<lparr>next_oid := Suc (next_oid s1)\<rparr>))))"

section \<open>StockManager\<close>

definition select :: "managers \<Rightarrow> string \<Rightarrow> quote option" where
  "select s symbol = map_of (sm_stocks s) symbol"

text \<open>
  The branch \<^verbatim>\<open>if (!(fetched))\<close> of \<^verbatim>\<open>fetch\<close>: a new fetcher gets the symbol, and
  what it fetches is stored under the symbol as it was requested.
\<close>

definition download :: "env \<Rightarrow> string \<Rightarrow> managers \<Rightarrow> (error + unit) \<times> managers" where
  "download ev symbol s =
     (case StockFetcher_set_symbol symbol of
        Inl e \<Rightarrow> (Inl e, s)
      | Inr sybmol \<Rightarrow>
          (case StockFetcher_fetch ev sybmol s of
             (Inl e, s1) \<Rightarrow> (Inl e, s1)
           | (Inr q, s1) \<Rightarrow>
               (Inr (), s1\<lparr>sm_stocks := AList.update symbol q (sm_stocks s1)\<rparr>)))"

text \<open>
  \<^verbatim>\<open>StockManager.fetch\<close>. A symbol that is a key of \<^verbatim>\<open>#stocks\<close> returns at once.
  Otherwise \<^verbatim>\<open>callbacks.fetch\<close>, when it is a function, is awaited; only when its value
  is falsy (or there is no such callback) does the fetcher run and the cache get written.
  \<^verbatim>\<open>callbacks.downloaded\<close> is then called with \<^verbatim>\<open>this.#stocks[symbol]\<close>, and the
  result is \<^verbatim>\<open>this.select(symbol)\<close>, undefined when nothing is stored.
\<close>

definition call_fetch :: "env \<Rightarrow> string \<Rightarrow> managers \<Rightarrow> (error + bool) \<times> managers" where
  "call_fetch ev symbol s =
     (case cb_fetch ev of
        None \<Rightarrow> (Inr False, s)
      | Some f \<Rightarrow> (f symbol, s\<lparr>asked := asked s @ [symbol]\<rparr>))"

definition StockManager_fetch ::
  "env \<Rightarrow> string \<Rightarrow> managers \<Rightarrow> (error + quote option) \<times> managers" where
  "StockManager_fetch ev symbol s =
     (if symbol \<in> set (map fst (sm_stocks s)) then (Inr (select s symbol), s)
      else
        (case call_fetch ev symbol s of
           (Inl e, s0) \<Rightarrow> (Inl e, s0)
         | (Inr fetched, s0) \<Rightarrow>
             (case (if fetched then (Inr (), s0) else download ev symbol s0) of
                (Inl e, s1) \<Rightarrow> (Inl e, s1)
              | (Inr _, s1) \<Rightarrow>
                  (case (case cb_downloaded ev of None \<Rightarrow> None
                         | Some f \<Rightarrow> f (select s1 symbol)) of
                     Some e \<Rightarrow> (Inl e, s1)
                   | None \<Rightarrow> (Inr (select s1 symbol), s1)))))"

section \<open>StockWatchers\<close>

text \<open>
  The repository holds two copies of the class; the embedding follows the later one, whose
  \<^verbatim>\<open>add\<close> returns what it did and whose \<^verbatim>\<open>create\<close> passes the quote (the earlier
  copy passes the class \<^verbatim>\<open>StockQuote\<close> itself). In both, \<^verbatim>\<open>create\<close>
  constructs the watcher with \<^verbatim>\<open>new Watcher\<close>.

  \<^verbatim>\<open>search(stock, address)\<close>, for the arguments the program passes: \<open>stock\<close> is a
  StockQuote or undefined, \<open>address\<close> a string or undefined. A quote matches a watcher
  that holds the same object; a falsy address (undefined or empty) does not filter.
  The optional callback runs before the filter. (The zod check of the address in the first
  line coerces to a string and accepts every value.)
\<close>

definition falsy :: "string option \<Rightarrow> bool" where
  "falsy a = (a = None \<or> a = Some [])"

definition validate :: "quote option \<Rightarrow> watcher \<Rightarrow> bool" where
  "validate stk w =
     (case stk of
        None \<Rightarrow> True
      | Some q \<Rightarrow> 0 < length (filter (\<lambda>added_stock. oid added_stock = oid q) (stock w)))"

definition StockWatchers_search ::
  "env \<Rightarrow> quote option \<Rightarrow> string option \<Rightarrow> managers \<Rightarrow> error + watcher list" where
  "StockWatchers_search ev stk addr s =
     (case (case cb_search ev of None \<Rightarrow> None | Some f \<Rightarrow> f stk addr) of
        Some e \<Rightarrow> Inl e
      | None \<Rightarrow>
          Inr (filter (\<lambda>w. (falsy addr \<or> addr = address w) \<and> validate stk w)
                 (sw_watchers s)))"

text \<open>
  The closures of \<^verbatim>\<open>add\<close>. \<^verbatim>\<open>update\<close> pushes the quote onto the first watcher with
  the address and reports whether there was one; \<^verbatim>\<open>create\<close> constructs a Watcher and
  pushes it onto \<^verbatim>\<open>#watchers\<close>.
\<close>

fun update :: "string option \<Rightarrow> quote \<Rightarrow> watcher list \<Rightarrow> watcher list option" where
  "update addr q [] = None"
| "update addr q (w # ws) =
     (if address w = addr then Some (w\<lparr>stock := stock w @ [q]\<rparr> # ws)
      else (case update addr q ws of None \<Rightarrow> None | Some ws' \<Rightarrow> Some (w # ws')))"

definition address_val :: "string option \<Rightarrow> jsval" where
  "address_val a = (case a of None \<Rightarrow> JUndefined | Some x \<Rightarrow> JStr x)"

definition create :: "env \<Rightarrow> quote \<Rightarrow> string option \<Rightarrow> managers \<Rightarrow> (error + bool) \<times> managers" where
  "create ev q addr s =
     (case Watcher_ctor (shapes_of ev)
             (JObj [(''stock'', JArr [JQuote (oid q) (own q)]), (''address'', address_val addr)]) of
        Inl e \<Rightarrow> (Inl e, s)
      | Inr w \<Rightarrow> (Inr True, s\<lparr>sw_watchers := sw_watchers s @ [w]\<rparr>))"

definition append_sw :: "env \<Rightarrow> quote \<Rightarrow> string option \<Rightarrow> managers \<Rightarrow> (error + bool) \<times> managers" where
  "append_sw ev q addr s =
     (case StockWatchers_search ev None addr s of
        Inl e \<Rightarrow> (Inl e, s)
      | Inr found \<Rightarrow>
          (if 0 < length found
           then (case update addr q (sw_watchers s) of
                   None \<Rightarrow> (Inr False, s)
                 | Some ws \<Rightarrow> (Inr True, s\<lparr>sw_watchers := ws\<rparr>))
           else create ev q addr s))"

text \<open>
  \<^verbatim>\<open>StockWatchers.add(stock, address)\<close>: \<^verbatim>\<open>z.instanceof(StockQuote).parse(stock)\<close>,
  then \<^verbatim>\<open>return !(find()) && append()\<close>.
\<close>

definition StockWatchers_add ::
  "env \<Rightarrow> stocks_val \<Rightarrow> string option \<Rightarrow> managers \<Rightarrow> (error + bool) \<times> managers" where
  "StockWatchers_add ev stk addr s =
     (case stk of
        ObjectVal _ \<Rightarrow> (Inl ZodError, s)
      | QuoteVal q \<Rightarrow>
          (case StockWatchers_search ev (Some q) addr s of
             Inl e \<Rightarrow> (Inl e, s)
           | Inr matching \<Rightarrow>
               (if 0 < length matching then (Inr False, s) else append_sw ev q addr s)))"

text \<open>
  The getter \<^verbatim>\<open>addresses\<close>: \<^verbatim>\<open>new Set(this.search.map((value) => value.address))\<close>.
  \<^verbatim>\<open>this.search\<close> is the method, not a call of it; a function has no property
  \<^verbatim>\<open>map\<close>, and calling undefined is a TypeError.
\<close>

datatype receiver = TheMethod_search | AnArray "watcher list"

definition member_map :: "receiver \<Rightarrow> (watcher \<Rightarrow> 'a) \<Rightarrow> error + 'a list" where
  "member_map r f = (case r of TheMethod_search \<Rightarrow> Inl TypeError | AnArray ws \<Rightarrow> Inr (map f ws))"

definition addresses :: "managers \<Rightarrow> error + string option set" where
  "addresses s =
     (case member_map TheMethod_search address of Inl e \<Rightarrow> Inl e | Inr xs \<Rightarrow> Inr (set xs))"

section \<open>Managers\<close>

text \<open>\<^verbatim>\<open>read(symbol)\<close>: the quote of the StockManager, paired with the watchers that hold it.\<close>

definition Managers_read ::
  "env \<Rightarrow> string \<Rightarrow> managers \<Rightarrow> (error + ManagersResult) \<times> managers" where
  "Managers_read ev symbol s =
     (case StockManager_fetch ev symbol s of
        (Inl e, s1) \<Rightarrow> (Inl e, s1)
      | (Inr q, s1) \<Rightarrow>
          (case StockWatchers_search ev q None s1 of
             Inl e \<Rightarrow> (Inl e, s1)
           | Inr ws \<Rightarrow> (Inr (ManagersResult_new q ws), s1)))"

text \<open>
  \<^verbatim>\<open>compare(symbols)\<close> reads the first two symbols and builds the comparison from the
  entries. The source starts the reads together (\<^verbatim>\<open>Promise.all\<close>); the embedding runs
  them in input order, every one of them, and fails with the first error in that order.
  Where every symbol is cached, as after the loop of \<^verbatim>\<open>watch\<close>, no read waits for the
  network or writes anything, and the order cannot be observed.
\<close>

fun read_each ::
  "env \<Rightarrow> string list \<Rightarrow> managers \<Rightarrow> (error + (string \<times> ManagersResult) list) \<times> managers" where
  "read_each ev [] s = (Inr [], s)"
| "read_each ev (symbol # rest) s =
     (case Managers_read ev symbol s of
        (r, s1) \<Rightarrow>
          (case read_each ev rest s1 of
             (rs, s2) \<Rightarrow>
               ((case r of
                   Inl e \<Rightarrow> Inl e
                 | Inr x \<Rightarrow> (case rs of Inl e \<Rightarrow> Inl e | Inr xs \<Rightarrow> Inr ((symbol, x) # xs))),
                s2)))"

definition Managers_compare ::
  "env \<Rightarrow> string list \<Rightarrow> managers \<Rightarrow> (error + comparison_data) \<times> managers" where
  "Managers_compare ev symbols s =
     (case read_each ev (take 2 symbols) s of
        (Inl e, s1) \<Rightarrow> (Inl e, s1)
      | (Inr entries, s1) \<Rightarrow> (Inr (Object_fromEntries entries), s1))"

text \<open>
  \<^verbatim>\<open>watch(symbol, address)\<close>. The argument is one symbol or an array of symbols; the
  loop reads each name and adds the address as a watcher of what it read, one name after
  the other; the result is \<^verbatim>\<open>compare(symbol)\<close> when the argument is an array and
  \<^verbatim>\<open>read(symbol)\<close> when it is not.
\<close>

datatype symbol_arg = One string | Many "string list"

datatype outcome = Single ManagersResult | Comparison comparison_data

fun watch_loop ::
  "env \<Rightarrow> string list \<Rightarrow> string option \<Rightarrow> managers \<Rightarrow> (error + unit) \<times> managers" where
  "watch_loop ev [] addr s = (Inr (), s)"
| "watch_loop ev (name # rest) addr s =
     (case Managers_read ev name s of
        (Inl e, s1) \<Rightarrow> (Inl e, s1)
      | (Inr initial, s1) \<Rightarrow>
          (case StockWatchers_add ev (stocks initial) addr s1 of
             (Inl e, s2) \<Rightarrow> (Inl e, s2)
           | (Inr _, s2) \<Rightarrow> watch_loop ev rest addr s2))"

definition watch_names :: "symbol_arg \<Rightarrow> string list" where
  "watch_names symbol = (case symbol of Many ns \<Rightarrow> ns | One n \<Rightarrow> [n])"

definition Managers_watch ::
  "env \<Rightarrow> symbol_arg \<Rightarrow> string option \<Rightarrow> managers \<Rightarrow> (error + outcome) \<times> managers" where
  "Managers_watch ev symbol addr s =
     (case watch_loop ev (watch_names symbol) addr s of
        (Inl e, s1) \<Rightarrow> (Inl e, s1)
      | (Inr _, s1) \<Rightarrow>
          (case symbol of
             Many ns \<Rightarrow>
               (case Managers_compare ev ns s1 of
                  (Inl e, s2) \<Rightarrow> (Inl e, s2)
                | (Inr d, s2) \<Rightarrow> (Inr (Comparison d), s2))
           | One n \<Rightarrow>
               (case Managers_read ev n s1 of
                  (Inl e, s2) \<Rightarrow> (Inl e, s2)
                | (Inr r, s2) \<Rightarrow> (Inr (Single r), s2))))"

section \<open>Concrete surroundings used by the examples\<close>

text \<open>
  A remote service that knows DIS and NKE, no callbacks, and declared schemas that reject
  everything (so whatever gets constructed was never checked against one).
\<close>

definition DIS_body :: jsval where
  "DIS_body = JObj [(''symbol'', JStr ''DIS''), (''latestPrice'', JNum 100)]"

definition NKE_body :: jsval where
  "NKE_body = JObj [(''symbol'', JStr ''NKE''), (''latestPrice'', JNum 75)]"

definition service :: "nat \<Rightarrow> string \<Rightarrow> reply" where
  "service k target =
     (if target = ''DIS'' then Body DIS_body
      else if target = ''NKE'' then Body NKE_body
      else Body (JStr ''Unknown symbol''))"

definition plain_env :: env where
  "plain_env = \<lparr>shapes_of = (\<lambda>sc v. Inl ZodError), remote = service,
                 cb_fetch = None, cb_downloaded = None, cb_search = None\<rparr>"

text \<open>
  The two quotes the service yields, as \<^verbatim>\<open>new StockQuote\<close> builds them for the first
  and the second object of a run, and the results and states of the runs below.
\<close>

definition DIS_quote :: quote where
  "DIS_quote = \<lparr>oid = 0, own =
     [(''symbol'', JStr ''DIS''), (''latestPrice'', JNum 100), (''change'', JUndefined),
      (''changePercent'', JUndefined), (''close'', JUndefined), (''high'', JUndefined),
      (''latestTime'', JUndefined), (''latestVolume'', JUndefined), (''low'', JUndefined),
      (''open'', JUndefined), (''previousClose'', JUndefined), (''volume'', JUndefined)]\<rparr>"

definition NKE_quote :: quote where
  "NKE_quote = \<lparr>oid = 1, own =
     [(''symbol'', JStr ''NKE''), (''latestPrice'', JNum 75), (''change'', JUndefined),
      (''changePercent'', JUndefined), (''close'', JUndefined), (''high'', JUndefined),
      (''latestTime'', JUndefined), (''latestVolume'', JUndefined), (''low'', JUndefined),
      (''open'', JUndefined), (''previousClose'', JUndefined), (''volume'', JUndefined)]\<rparr>"

definition DIS_result :: ManagersResult where
  "DIS_result = \<lparr>stocks = QuoteVal DIS_quote, watchers = []\<rparr>"

definition NKE_result :: ManagersResult where
  "NKE_result = \<lparr>stocks = QuoteVal NKE_quote, watchers = []\<rparr>"

definition DIS_cached :: managers where
  "DIS_cached = \<lparr>sm_stocks = [(''DIS'', DIS_quote)], sw_watchers = [], next_oid = 1,
                  wire = [''DIS''], asked = []\<rparr>"

text \<open>
  A result that lists one watcher, as data for a comparison of unequal watcher counts.
\<close>

definition DIS_watcher :: watcher where
  "DIS_watcher = \<lparr>address = Some ''10.0.0.1'', stock = [DIS_quote]\<rparr>"

definition DIS_liked :: ManagersResult where
  "DIS_liked = \<lparr>stocks = QuoteVal DIS_quote, watchers = [DIS_watcher]\<rparr>"

section \<open>Facts about the constructors and the managers\<close>

lemmas quote_defs =
  StockQuote_ctor_def DataContainer_ctor_def DataContainer_fields_def zod_parse_def
  Object_assign_def StockQuote_fields_def StockQuote_declared_def enumerable_def

lemmas run_defs =
  Managers_read_def StockManager_fetch_def call_fetch_def download_def
  StockFetcher_set_symbol_def StockSybmolRegex_parse_def trim_def is_space_def
  StockFetcher_fetch_def StockFetcher_source_def select_def StockWatchers_search_def
  ManagersResult_new_def falsy_def validate_def StockWatchers_add_def append_sw_def

lemmas world_defs =
  plain_env_def service_def DIS_body_def NKE_body_def Managers_new_def DIS_quote_def
  NKE_quote_def DIS_result_def NKE_result_def DIS_cached_def
  DIS_watcher_def DIS_liked_def

lemmas compare_defs =
  comparison_def popular_def popular_step_def differences_def differences_step_def
  paired_def js_slice_def

text \<open>The constructor of Watcher never returns: every call ends in the ReferenceError.\<close>

lemma safeParse_loose_undefined: "safeParse_success sh LooseObject JUndefined = False"
  by (simp add: safeParse_success_def zod_parse_def)

lemma DataContainer_ctor_lenient:
  "DataContainer_ctor sh DataContainer_fields properties False = Inr DataContainer_fields"
  by (simp add: DataContainer_ctor_def DataContainer_fields_def safeParse_loose_undefined Let_def)

lemma Watcher_ctor_throws: "Watcher_ctor sh properties = Inl ReferenceError"
  by (simp add: Watcher_ctor_def DataContainer_ctor_lenient Watcher_scope_def)

lemma create_throws: "create ev q addr s = (Inl ReferenceError, s)"
  by (simp add: create_def Watcher_ctor_throws)

text \<open>What each operation leaves alone.\<close>

lemma StockFetcher_fetch_frame:
  "StockFetcher_fetch ev sy s = (r, s') \<Longrightarrow>
     sm_stocks s' = sm_stocks s \<and> sw_watchers s' = sw_watchers s \<and> asked s' = asked s
     \<and> length (wire s') \<le> Suc (length (wire s))"
  by (auto simp add: StockFetcher_fetch_def Let_def
      split: sum.splits reply.splits jsval.splits if_splits)

lemma download_frame:
  "download ev symbol s = (r, s') \<Longrightarrow>
     sw_watchers s' = sw_watchers s \<and> asked s' = asked s
     \<and> length (wire s') \<le> Suc (length (wire s))"
  by (auto simp add: download_def split: sum.splits prod.splits dest: StockFetcher_fetch_frame)

lemma call_fetch_frame:
  "call_fetch ev symbol s = (r, s') \<Longrightarrow>
     sm_stocks s' = sm_stocks s \<and> sw_watchers s' = sw_watchers s \<and> wire s' = wire s
     \<and> length (asked s') \<le> Suc (length (asked s))"
  by (auto simp add: call_fetch_def split: option.splits)

lemma fetch_frame:
  "StockManager_fetch ev symbol s = (r, s') \<Longrightarrow>
     sw_watchers s' = sw_watchers s
     \<and> length (wire s') \<le> Suc (length (wire s))
     \<and> length (asked s') \<le> Suc (length (asked s))"
  apply (simp add: StockManager_fetch_def split: if_splits prod.splits sum.splits option.splits)
  apply (auto dest!: call_fetch_frame download_frame)
  done

lemma read_frame:
  "Managers_read ev symbol s = (r, s') \<Longrightarrow>
     sw_watchers s' = sw_watchers s
     \<and> length (wire s') \<le> Suc (length (wire s))
     \<and> length (asked s') \<le> Suc (length (asked s))"
  by (auto simp add: Managers_read_def split: prod.splits sum.splits dest!: fetch_frame)

lemma add_frame:
  "StockWatchers_add ev stk addr s = (r, s') \<Longrightarrow>
     sm_stocks s' = sm_stocks s \<and> wire s' = wire s \<and> asked s' = asked s"
  by (auto simp add: StockWatchers_add_def append_sw_def create_throws
      split: stocks_val.splits sum.splits if_splits option.splits)

text \<open>
  A registry without watchers stays without: \<^verbatim>\<open>add\<close> never returns there, so the loop
  of \<^verbatim>\<open>watch\<close> gets through no name, and \<^verbatim>\<open>watch\<close> returns for the empty array only.
  Every \<^verbatim>\<open>Managers\<close> starts with such a registry.
\<close>

lemma add_on_empty_registry_fails:
  assumes "sw_watchers s = []"
  shows "\<exists>e. StockWatchers_add ev stk addr s = (Inl e, s)"
  using assms
  by (cases stk)
     (auto simp add: StockWatchers_add_def StockWatchers_search_def append_sw_def create_throws
        split: option.splits)

lemma watch_loop_on_empty_registry:
  assumes "sw_watchers s = []" and "watch_loop ev ns addr s = (Inr u, s1)"
  shows "ns = []"
proof (cases ns)
  case Nil
  then show ?thesis .
next
  case (Cons name rest)
  obtain initial s0 b s2 where first: "Managers_read ev name s = (Inr initial, s0)"
    and added: "StockWatchers_add ev (stocks initial) addr s0 = (Inr b, s2)"
    using assms(2) Cons by (auto split: prod.splits sum.splits)
  have "sw_watchers s0 = []"
    using first read_frame assms(1) by fastforce
  then obtain e where "StockWatchers_add ev (stocks initial) addr s0 = (Inl e, s0)"
    using add_on_empty_registry_fails by blast
  with added show ?thesis by simp
qed

lemma watch_on_empty_registry:
  assumes "sw_watchers s = []" and "Managers_watch ev symbol addr s = (Inr r, s')"
  shows "symbol = Many []"
proof -
  obtain u s1 where "watch_loop ev (watch_names symbol) addr s = (Inr u, s1)"
    using assms(2) by (auto simp add: Managers_watch_def split: prod.splits sum.splits)
  then have "watch_names symbol = []"
    using assms(1) watch_loop_on_empty_registry by blast
  then show ?thesis
    by (cases symbol) (simp_all add: watch_names_def)
qed

text \<open>The cache: a hit answers from it, and a quote that \<^verbatim>\<open>fetch\<close> returns is in it.\<close>

lemma key_of_map_of: "map_of al k = Some v \<Longrightarrow> k \<in> fst ` set al"
  by (metis domI dom_map_of_conv_image_fst)

lemma fetch_hit:
  "map_of (sm_stocks s) symbol = Some q \<Longrightarrow> StockManager_fetch ev symbol s = (Inr (Some q), s)"
  by (simp add: StockManager_fetch_def select_def key_of_map_of)

lemma fetch_some_cached:
  "StockManager_fetch ev symbol s = (Inr (Some q), s') \<Longrightarrow> map_of (sm_stocks s') symbol = Some q"
  by (auto simp add: StockManager_fetch_def select_def
      split: if_splits prod.splits sum.splits option.splits)

lemma read_quote_cached:
  assumes "Managers_read ev S s = (Inr r, s1)" and "stocks r = QuoteVal q"
  shows "map_of (sm_stocks s1) S = Some q"
proof -
  obtain qo ws where f: "StockManager_fetch ev S s = (Inr qo, s1)"
    and r: "r = ManagersResult_new qo ws"
    using assms(1) by (auto simp add: Managers_read_def split: prod.splits sum.splits)
  have "qo = Some q"
    using r assms(2) by (cases qo) (simp_all add: ManagersResult_new_def)
  with f show ?thesis by (simp add: fetch_some_cached)
qed

lemma read_twice:
  assumes "Managers_read ev S s = (Inr r1, s1)" and "stocks r1 = QuoteVal q"
  shows "Managers_read ev S s1 = (Inr r1, s1)"
proof -
  obtain qo ws where f: "StockManager_fetch ev S s = (Inr qo, s1)"
    and w: "StockWatchers_search ev qo None s1 = Inr ws"
    and r: "r1 = ManagersResult_new qo ws"
    using assms(1) by (auto simp add: Managers_read_def split: prod.splits sum.splits)
  have "qo = Some q"
    using r assms(2) by (cases qo) (simp_all add: ManagersResult_new_def)
  moreover have "StockManager_fetch ev S s1 = (Inr (Some q), s1)"
    using assms by (intro fetch_hit read_quote_cached)
  ultimately show ?thesis
    using w r by (simp add: Managers_read_def)
qed

text \<open>
  With no callbacks, a miss that the fetcher answers stores the quote under the symbol as
  requested (the fetcher itself was given the trimmed symbol) and returns it.
\<close>

lemma fetch_miss_default:
  assumes "symbol \<notin> fst ` set (sm_stocks s)" and "cb_fetch ev = None"
    and "cb_downloaded ev = None" and "StockFetcher_set_symbol symbol = Inr sy"
    and "StockFetcher_fetch ev sy s = (Inr q, s1)"
  shows "StockManager_fetch ev symbol s
           = (Inr (Some q), s1\<lparr>sm_stocks := AList.update symbol q (sm_stocks s1)\<rparr>)"
  using assms
  by (simp add: StockManager_fetch_def call_fetch_def download_def select_def update_conv')

text \<open>Adding what is already watched changes nothing and reports \<^verbatim>\<open>false\<close>.\<close>

lemma add_duplicate_noop:
  "StockWatchers_search ev (Some q) addr s = Inr (w # ws) \<Longrightarrow>
     StockWatchers_add ev (QuoteVal q) addr s = (Inr False, s)"
  by (simp add: StockWatchers_add_def)

text \<open>The runs the examples rest on.\<close>

lemma read_DIS_new:
  "Managers_read plain_env ''DIS'' Managers_new = (Inr DIS_result, DIS_cached)"
  by (simp add: run_defs quote_defs world_defs Let_def)

lemma read_ZZZZZZZ_cached:
  "Managers_read plain_env ''ZZZZZZZ'' DIS_cached = (Inl ZodError, DIS_cached)"
  by (simp add: run_defs world_defs Let_def)

lemma add_DIS_cached:
  "StockWatchers_add plain_env (QuoteVal DIS_quote) (Some ''10.0.0.1'') DIS_cached
     = (Inl ReferenceError, DIS_cached)"
  by (simp add: StockWatchers_add_def StockWatchers_search_def append_sw_def create_throws
      plain_env_def DIS_cached_def)

lemma loop_from_DIS_new:
  "watch_loop plain_env (''DIS'' # rest) (Some ''10.0.0.1'') Managers_new
     = (Inl ReferenceError, DIS_cached)"
  using read_DIS_new add_DIS_cached by (simp add: DIS_result_def)

lemma compare_DIS_new:
  "Managers_compare plain_env [''DIS''] Managers_new = (Inr [(''DIS'', DIS_result)], DIS_cached)"
  using read_DIS_new by (simp add: Managers_compare_def Object_fromEntries_def)

lemma watch_empty_array:
  "Managers_watch ev (Many []) addr s = (Inr (Comparison []), s)"
  by (simp add: Managers_watch_def watch_names_def Managers_compare_def Object_fromEntries_def)

text \<open>
  Whatever the declared schema of StockQuote accepts, the constructor builds an instance
  from every plain object: the one schema it consults is the loose one.
\<close>

lemma StockQuote_ctor_accepts_objects:
  "''_validate'' \<notin> fst ` set ps \<Longrightarrow> \<exists>q. StockQuote_ctor sh n (JObj ps) = Inr q"
  by (simp add: quote_defs)

section \<open>The claims\<close>

text \<open>
  C1. Claim: for every valid quote \<open>q\<close> and address \<open>a\<close>, calling \<^verbatim>\<open>StockWatchers.add\<close>
  twice with the same pair leaves exactly one matching entry, \<^verbatim>\<open>search(q, a)\<close> has
  length 1 after the second call, and the second call is a no-op, not an error.

  On the code the first call already fails. A new registry has no watcher for the address,
  so \<^verbatim>\<open>add\<close> goes to \<^verbatim>\<open>create\<close>, and \<^verbatim>\<open>new Watcher(...)\<close> throws the ReferenceError
  (\<open>Watcher_ctor_throws\<close>). The registry is left as it was, so every further call does
  the same, and \<^verbatim>\<open>search(q, a)\<close> stays empty. The theorem evaluates the code there, for
  every quote and address. (That a repeated add is a no-op where an entry does exist is
  \<open>add_duplicate_noop\<close>.)
\<close>

theorem add_on_new_registry_throws:
  "StockWatchers_add plain_env (QuoteVal q) addr Managers_new = (Inl ReferenceError, Managers_new)
   \<and> StockWatchers_search plain_env (Some q) addr Managers_new = Inr []"
  by (simp add: StockWatchers_add_def StockWatchers_search_def append_sw_def create_throws
      plain_env_def Managers_new_def)

text \<open>
  C2. For a comparison over exactly two entries, \<open>A\<close> first and \<open>B\<close> second, with
  watcher counts \<open>wA\<close> and \<open>wB\<close>, the getter \<^verbatim>\<open>comparison\<close> succeeds and its member
  \<open>watchers\<close> maps \<open>A\<close> to \<open>wB - wA\<close> and \<open>B\<close> to \<open>wA - wB\<close>. The two names are
  the keys of one object, hence different.
\<close>

theorem two_entry_watcher_diffs:
  assumes "A \<noteq> B"
  shows "\<exists>c. comparison [(A, ra), (B, rb)] = Inr c \<and>
           cmp_watchers c = [(A, int (length (watchers rb)) - int (length (watchers ra))),
                             (B, int (length (watchers ra)) - int (length (watchers rb)))]"
  using assms by (simp add: compare_defs)

theorem two_entry_watcher_diffs_witness:
  "''DIS'' \<noteq> ''NKE'' \<and>
   (\<exists>c. comparison [(''DIS'', DIS_liked), (''NKE'', NKE_result)] = Inr c \<and>
        cmp_watchers c = [(''DIS'', - 1), (''NKE'', 1)])"
proof -
  have different: "''DIS'' \<noteq> ''NKE''" by simp
  from two_entry_watcher_diffs [OF different, of DIS_liked NKE_result]
  show ?thesis by (simp add: DIS_liked_def NKE_result_def)
qed

text \<open>
  C3. For every symbol \<open>S\<close> present in the cache, \<^verbatim>\<open>StockManager.fetch(S)\<close> returns the
  cached quote and leaves the whole state as it was: nothing is sent to the remote service
  and no callback is asked. Hence, when \<^verbatim>\<open>read(S)\<close> has returned a result with a quote,
  a second \<^verbatim>\<open>read(S)\<close> right after it returns the very same result (the same quote
  object) and changes nothing, and over the two calls at most one request went to the
  remote service (and at most one call to \<^verbatim>\<open>callbacks.fetch\<close>).
\<close>

theorem cache_hit_and_reread:
  "(map_of (sm_stocks s) S = Some q \<longrightarrow> StockManager_fetch ev S s = (Inr (Some q), s)) \<and>
   (Managers_read ev S s = (Inr r1, s1) \<and> stocks r1 = QuoteVal q \<longrightarrow>
      Managers_read ev S s1 = (Inr r1, s1)
      \<and> length (wire s1) \<le> Suc (length (wire s))
      \<and> length (asked s1) \<le> Suc (length (asked s)))"
  using fetch_hit read_twice read_frame by blast

theorem cache_hit_and_reread_witness:
  "map_of (sm_stocks DIS_cached) ''DIS'' = Some DIS_quote
   \<and> StockManager_fetch plain_env ''DIS'' DIS_cached = (Inr (Some DIS_quote), DIS_cached)
   \<and> Managers_read plain_env ''DIS'' Managers_new = (Inr DIS_result, DIS_cached)
   \<and> stocks DIS_result = QuoteVal DIS_quote
   \<and> Managers_read plain_env ''DIS'' DIS_cached = (Inr DIS_result, DIS_cached)
   \<and> wire Managers_new = [] \<and> wire DIS_cached = [''DIS'']"
proof -
  have cached: "map_of (sm_stocks DIS_cached) ''DIS'' = Some DIS_quote"
    by (simp add: DIS_cached_def)
  have quote: "stocks DIS_result = QuoteVal DIS_quote"
    by (simp add: DIS_result_def)
  have hit: "StockManager_fetch plain_env ''DIS'' DIS_cached = (Inr (Some DIS_quote), DIS_cached)"
    using cache_hit_and_reread [where s = DIS_cached and S = "''DIS''" and q = DIS_quote
        and ev = plain_env] cached by blast
  have again: "Managers_read plain_env ''DIS'' DIS_cached = (Inr DIS_result, DIS_cached)"
    using cache_hit_and_reread [where s = Managers_new and S = "''DIS''" and q = DIS_quote
        and ev = plain_env and ?r1.0 = DIS_result and ?s1.0 = DIS_cached] read_DIS_new quote
    by blast
  show ?thesis
    using cached quote hit again read_DIS_new by (simp add: DIS_cached_def Managers_new_def)
qed

text \<open>
  C4. Claim: for a two-entry comparison of \<open>A\<close> and \<open>B\<close> whose quotes carry numeric
  \<^verbatim>\<open>latestPrice\<close> \<open>pA\<close> and \<open>pB\<close>, \<^verbatim>\<open>comparison.stocks[A].latestPrice\<close> is
  \<open>pB - pA\<close>, and fields that are not numeric on both sides are left out.

  On the code no field of a quote is ever compared. \<^verbatim>\<open>differences\<close> walks
  \<^verbatim>\<open>Object.keys(this.names)\<close>, the indices \<^verbatim>\<open>"0"\<close>, \<^verbatim>\<open>"1"\<close> of the array of names, and
  looks these up in the quotes, where they are undefined. For DIS at 100 and NKE at 75 the
  member \<open>stocks\<close> of the comparison holds an empty object for each name: there is no
  \<^verbatim>\<open>latestPrice\<close> in it.
\<close>

theorem priced_quotes_have_no_field_diffs:
  "comparison [(''DIS'', DIS_result), (''NKE'', NKE_result)]
     = Inr \<lparr>cmp_watchers = [(''DIS'', 0), (''NKE'', 0)],
            cmp_stocks = [(''DIS'', []), (''NKE'', [])]\<rparr>
   \<and> Object_keys_of_array (names [(''DIS'', DIS_result), (''NKE'', NKE_result)]) = [''0'', ''1'']
   \<and> stocks_prop (stocks DIS_result) ''latestPrice'' = JNum 100
   \<and> stocks_prop (stocks NKE_result) ''latestPrice'' = JNum 75"
  by (simp add: compare_defs field_differences_def Object_fromEntries_def
      Object_keys_of_array_def names_def stocks_prop_def get_prop_def decimal.simps
      DIS_result_def NKE_result_def DIS_quote_def NKE_quote_def)

text \<open>
  C5. Claim: registering one address for DIS and then for NKE gives one watcher with two
  quotes, and \<^verbatim>\<open>addresses\<close> is a set of size 1.

  On the code neither registration gets as far as a watcher: each \<^verbatim>\<open>add\<close> on the new
  registry throws the ReferenceError of the Watcher constructor and leaves the registry
  empty. The getter \<^verbatim>\<open>addresses\<close> throws a TypeError in every state, since it reads
  \<^verbatim>\<open>map\<close> of the method \<^verbatim>\<open>this.search\<close> instead of calling the method.
\<close>

theorem registering_two_symbols_throws:
  "StockWatchers_add plain_env (QuoteVal DIS_quote) (Some ''1.2.3.4'') Managers_new
     = (Inl ReferenceError, Managers_new)
   \<and> StockWatchers_add plain_env (QuoteVal NKE_quote) (Some ''1.2.3.4'') Managers_new
     = (Inl ReferenceError, Managers_new)
   \<and> sw_watchers Managers_new = []
   \<and> addresses s = Inl TypeError"
  by (simp add: StockWatchers_add_def StockWatchers_search_def append_sw_def create_throws
      plain_env_def Managers_new_def addresses_def member_map_def)

text \<open>
  C6. Claim: constructing a StockQuote or a Watcher validates or throws; a property bag with
  a required field missing or a field outside its constraint fails with a validation error.

  On the code \<^verbatim>\<open>new StockQuote\<close> checks the bag against the loose schema of
  \<^verbatim>\<open>DataContainer\<close> only, because the field \<^verbatim>\<open>_schema\<close> of the subclass is not yet
  initialised while \<^verbatim>\<open>super(properties, true)\<close> runs. A symbol of thirteen letters, which
  \<^verbatim>\<open>StockSybmolRegex\<close> rejects, with a negative price, and a bag with no symbol at all,
  both give an instance, whatever the declared schemas \<open>sh\<close> accept. \<^verbatim>\<open>new Watcher\<close>
  throws for every bag, a valid one too, and what it throws is a ReferenceError.
\<close>

theorem construction_skips_declared_schema:
  "StockSybmolRegex_parse ''TOOLONGSYMBOL'' = Inl ZodError
   \<and> StockQuote_ctor sh n (JObj [(''symbol'', JStr ''TOOLONGSYMBOL''), (''latestPrice'', JNum (- 5))])
       = Inr \<lparr>oid = n, own =
           [(''symbol'', JStr ''TOOLONGSYMBOL''), (''latestPrice'', JNum (- 5)),
            (''change'', JUndefined), (''changePercent'', JUndefined), (''close'', JUndefined),
            (''high'', JUndefined), (''latestTime'', JUndefined),
            (''latestVolume'', JUndefined), (''low'', JUndefined), (''open'', JUndefined),
            (''previousClose'', JUndefined), (''volume'', JUndefined)]\<rparr>
   \<and> StockQuote_ctor sh n (JObj [])
       = Inr \<lparr>oid = n, own =
           [(''symbol'', JUndefined), (''change'', JUndefined), (''changePercent'', JUndefined),
            (''close'', JUndefined), (''high'', JUndefined), (''latestPrice'', JUndefined),
            (''latestTime'', JUndefined), (''latestVolume'', JUndefined), (''low'', JUndefined),
            (''open'', JUndefined), (''previousClose'', JUndefined), (''volume'', JUndefined)]\<rparr>
   \<and> Watcher_ctor sh properties = Inl ReferenceError"
  by (simp add: StockSybmolRegex_parse_def trim_def is_space_def quote_defs Watcher_ctor_throws)

text \<open>
  C7. Claim: within one call of \<^verbatim>\<open>watch\<close> over several symbols the reads and
  registrations go in input order, and when the read of symbol \<open>k\<close> fails the call ends
  with that error while the watchers registered for the symbols before it stay registered.

  On the code no symbol before \<open>k\<close> is ever registered. For \<^verbatim>\<open>["DIS", "ZZZZZZZ"]\<close> on
  a new \<^verbatim>\<open>Managers\<close>, DIS is read (one request, the quote is cached), its registration
  throws the ReferenceError of the Watcher constructor, and \<^verbatim>\<open>watch\<close> ends with that
  error and an empty registry. The read of the second symbol, which would fail with the
  validation error, is never made. (That the loop gets past no name on a registry without
  watchers is \<open>watch_loop_on_empty_registry\<close>.)
\<close>

theorem watch_aborts_at_first_registration:
  "Managers_watch plain_env (Many [''DIS'', ''ZZZZZZZ'']) (Some ''10.0.0.1'') Managers_new
     = (Inl ReferenceError, DIS_cached)
   \<and> sw_watchers DIS_cached = []
   \<and> wire DIS_cached = [''DIS'']
   \<and> Managers_read plain_env ''ZZZZZZZ'' DIS_cached = (Inl ZodError, DIS_cached)"
  using loop_from_DIS_new [of "[''ZZZZZZZ'']"] read_ZZZZZZZ_cached
  by (simp add: Managers_watch_def watch_names_def DIS_cached_def)

text \<open>
  C8. Claim: \<^verbatim>\<open>watch\<close> returns a comparison if and only if more than one symbol was
  supplied, and otherwise the result of reading the one symbol again, a cache hit that
  shows the watcher count this call has updated.

  On the code \<^verbatim>\<open>watch\<close> returns neither. For a symbol on its own, for an array of one
  symbol and for an array of two, on a new \<^verbatim>\<open>Managers\<close>, the first registration
  throws the ReferenceError of the Watcher constructor: there is no result and no watcher
  count to show. The one call that returns is that with the empty array, and it returns a
  comparison of no entries (\<^verbatim>\<open>watch\<close> chooses \<^verbatim>\<open>compare\<close> by
  \<^verbatim>\<open>Array.isArray(symbol)\<close>). That nothing else returns on a registry without watchers
  is \<open>watch_on_empty_registry\<close>.
\<close>

theorem watch_throws_for_one_and_for_many:
  "Managers_watch plain_env (One ''DIS'') (Some ''10.0.0.1'') Managers_new
     = (Inl ReferenceError, DIS_cached)
   \<and> Managers_watch plain_env (Many [''DIS'']) (Some ''10.0.0.1'') Managers_new
     = (Inl ReferenceError, DIS_cached)
   \<and> Managers_watch plain_env (Many [''DIS'', ''NKE'']) (Some ''10.0.0.1'') Managers_new
     = (Inl ReferenceError, DIS_cached)
   \<and> sw_watchers DIS_cached = []
   \<and> Managers_watch plain_env (Many []) (Some ''10.0.0.1'') Managers_new
     = (Inr (Comparison []), Managers_new)"
  using loop_from_DIS_new [of "[]"] loop_from_DIS_new [of "[''NKE'']"] watch_empty_array
  by (simp add: Managers_watch_def watch_names_def DIS_cached_def)

text \<open>
  C9. Claim: on a cache miss \<^verbatim>\<open>StockManager.fetch\<close> invokes the fetch capability with the
  symbol and, when that succeeds, stores the quote under the requested symbol and returns
  it.

  The capability can be supplied as \<^verbatim>\<open>callbacks.fetch\<close>, and then the code drops what it
  yields: the assignment to \<^verbatim>\<open>this.#stocks[symbol]\<close> stands only in the branch for a
  falsy value. With a callback that yields a quote for DIS, the callback is asked for DIS,
  nothing is stored, and \<^verbatim>\<open>fetch\<close> returns undefined. (Without callbacks the claim holds:
  \<open>fetch_miss_default\<close>.)
\<close>

theorem fetch_drops_callback_quote:
  "StockManager_fetch (plain_env\<lparr>cb_fetch := Some (\<lambda>symbol. Inr True)\<rparr>) ''DIS'' Managers_new
     = (Inr None, Managers_new\<lparr>asked := [''DIS'']\<rparr>)
   \<and> sm_stocks (Managers_new\<lparr>asked := [''DIS'']\<rparr>) = []"
  by (simp add: StockManager_fetch_def call_fetch_def select_def plain_env_def Managers_new_def)

text \<open>
  C10. For a comparison that holds exactly one named entry (what \<^verbatim>\<open>compare\<close> builds from an
  array of one symbol, and so what \<^verbatim>\<open>watch\<close> asks for when given one), index 0 is paired with the last entry, which is the entry itself,
  and the difference of watcher counts under its name is 0.
\<close>

theorem single_entry_diff_zero:
  "paired 0 [r] = Inr r \<and>
   (\<exists>c. comparison [(n, r)] = Inr c \<and> cmp_watchers c = [(n, 0)])"
  by (simp add: compare_defs)

theorem single_entry_diff_zero_witness:
  "Managers_compare plain_env [''DIS''] Managers_new = (Inr [(''DIS'', DIS_result)], DIS_cached)
   \<and> paired 0 [DIS_result] = Inr DIS_result
   \<and> (\<exists>c. comparison [(''DIS'', DIS_result)] = Inr c \<and> cmp_watchers c = [(''DIS'', 0)])"
  using single_entry_diff_zero [of DIS_result "''DIS''"] compare_DIS_new by simp

end
